theory Spec2Isabelle
  imports Complex_Main "HOL-Library.AList"
begin

section \<open>Scenario model of the VRP scenario builder (vrp\_ui.py)\<close>

text \<open>
  Python floats are read as real numbers, Python ints as \<open>int\<close>. A node is the class
  \<open>VRPNode\<close>; its attributes \<open>id\<close>, \<open>x\<close> and \<open>y\<close> are the fields \<open>node_id\<close>,
  \<open>node_x\<close> and \<open>node_y\<close>. The attribute \<open>time_window\<close> is \<open>None\<close> or a pair, and
  \<open>required_skills\<close> is a Python set.
\<close>

record VRPNode =
  node_id :: int
  node_x :: real
  node_y :: real
  is_depot :: bool
  time_window :: "(int \<times> int) option"
  required_skills :: "string set"

text \<open>
  \<open>VRPNode.__init__\<close>. The class attribute \<open>VRPNode.id_counter\<close> is shared by all
  nodes; the constructor takes its value and returns the new one. A depot gets id 0
  and leaves the counter alone; any other node gets the counter's value and increments it.
\<close>

definition VRPNode_init :: "real \<Rightarrow> real \<Rightarrow> bool \<Rightarrow> int \<Rightarrow> VRPNode \<times> int" where
  "VRPNode_init vx vy depot counter =
     (if \<not> depot
      then (\<lparr>node_id = counter, node_x = vx, node_y = vy, is_depot = depot,
             time_window = None, required_skills = {}\<rparr>, counter + 1)
      else (\<lparr>node_id = 0, node_x = vx, node_y = vy, is_depot = depot,
             time_window = None, required_skills = {}\<rparr>, counter))"

text \<open>The messages the solver thread puts on \<open>self.queue\<close>: tagged tuples in the source.\<close>

datatype debug_text =
    SolvingWith nat nat int
  | FirstAttemptFailed

datatype error_text =
    NoVehicleHasSkills int "string set"
  | NeedCustomer
  | NeedVehicle
  | RelaxTimeWindows
  | CheckVehicleSkills
  | MoreVehiclesOrCheckConstraints
  | ErrorDuringSolving string

datatype message =
    Debug debug_text
  | Success "int list list" int
  | Error error_text

text \<open>
  The application object \<open>VRPApp\<close>, restricted to the attributes that hold scenario data.
  \<open>selected_node\<close> is a reference to one of the objects in \<open>self.nodes\<close>; the model keeps
  the position of that object in the list. \<open>vehicle_skills\<close> is a dict from vehicle index
  to a list of skills, kept as an association list in insertion order. \<open>id_counter\<close> is the
  class attribute \<open>VRPNode.id_counter\<close>.
\<close>

record VRPApp =
  nodes :: "VRPNode list"
  selected_node :: "nat option"
  num_vehicles :: int
  available_skills :: "string list"
  vehicle_skills :: "(int \<times> string list) list"
  routes :: "int list list"
  queue :: "message list"
  id_counter :: int

text \<open>The canvas constants set once in \<open>VRPApp.__init__\<close> and never assigned again.\<close>

definition canvas_width :: int where "canvas_width = 800"
definition canvas_height :: int where "canvas_height = 600"
definition scale_factor :: int where "scale_factor = 10"

subsection \<open>Coordinate mapper\<close>

definition canvas_to_vrp_coords :: "real \<Rightarrow> real \<Rightarrow> real \<times> real" where
  "canvas_to_vrp_coords canvas_x canvas_y =
     (let vrp_x = (canvas_x - of_int (canvas_width div 2)) / of_int scale_factor;
          vrp_y = (of_int (canvas_height div 2) - canvas_y) / of_int scale_factor
      in (vrp_x, vrp_y))"

definition vrp_to_canvas_coords :: "real \<Rightarrow> real \<Rightarrow> real \<times> real" where
  "vrp_to_canvas_coords vrp_x vrp_y =
     (let canvas_x = (vrp_x * of_int scale_factor) + of_int (canvas_width div 2);
          canvas_y = of_int (canvas_height div 2) - (vrp_y * of_int scale_factor)
      in (canvas_x, canvas_y))"

subsection \<open>Scenario editing\<close>

text \<open>
  The message boxes an operation opens are part of its result. Widget contents, the status
  label and the drawing calls are left out.
\<close>

datatype dialog =
    showinfo string string
  | showwarning string string
  | showerror string string
  | showerror_solver error_text

datatype py_exception = IndexError | KeyError string | ValueError string

fun str_of_exception :: "py_exception \<Rightarrow> string" where
  "str_of_exception IndexError = ''list index out of range''"
| "str_of_exception (KeyError k) = [CHR 0x27] @ k @ [CHR 0x27]"
| "str_of_exception (ValueError m) = m"

text \<open>\<open>str.strip()\<close>: leading and trailing white space removed (the white space
  characters below code point 256).\<close>

definition is_space :: "char \<Rightarrow> bool" where
  "is_space c \<longleftrightarrow>
     c \<in> set [CHR '' '', CHR 0x09, CHR 0x0A, CHR 0x0B, CHR 0x0C, CHR 0x0D,
               CHR 0x1C, CHR 0x1D, CHR 0x1E, CHR 0x1F, CHR 0x85, CHR 0xA0]"

definition strip :: "string \<Rightarrow> string" where
  "strip s = rev (dropWhile is_space (rev (dropWhile is_space s)))"

text \<open>
  \<open>update_vehicle_skills_ui\<close> rebuilds widgets, and before that gives every vehicle index
  in \<open>range(self.num_vehicles)\<close> that is not yet a key of \<open>self.vehicle_skills\<close> an empty
  list. \<open>update_skills_ui\<close> returns early when no skill is defined and calls
  \<open>update_vehicle_skills_ui\<close> otherwise.
\<close>

definition update_vehicle_skills_ui :: "VRPApp \<Rightarrow> VRPApp" where
  "update_vehicle_skills_ui app =
     app\<lparr>vehicle_skills :=
           fold (\<lambda>i vs. if map_of vs (int i) = None then AList.update (int i) [] vs else vs)
             [0..<nat (num_vehicles app)] (vehicle_skills app)\<rparr>"

definition update_skills_ui :: "VRPApp \<Rightarrow> VRPApp" where
  "update_skills_ui app =
     (if available_skills app = [] then app else update_vehicle_skills_ui app)"

text \<open>
  \<open>VRPApp.__init__\<close>: the attributes, then \<open>create_widgets\<close> (which reaches
  \<open>update_vehicle_skills_ui\<close>), then the depot at the canvas centre. The class attribute
  \<open>VRPNode.id_counter\<close> starts at 0.
\<close>

definition VRPApp_init :: VRPApp where
  "VRPApp_init =
     (let app0 = \<lparr>nodes = [], selected_node = None, num_vehicles = 4, available_skills = [],
                  vehicle_skills = [], routes = [], queue = [], id_counter = 0\<rparr>;
          app1 = update_vehicle_skills_ui app0;
          canvas_center_x = canvas_width div 2;
          canvas_center_y = canvas_height div 2;
          (vrp_x, vrp_y) = canvas_to_vrp_coords (of_int canvas_center_x) (of_int canvas_center_y);
          (depot_node, counter) = VRPNode_init vrp_x vrp_y True (id_counter app1)
      in app1\<lparr>nodes := nodes app1 @ [depot_node], id_counter := counter\<rparr>)"

text \<open>
  The loop of both click handlers that looks for a node within 10 pixels of the click and
  breaks at the first one; the result is the position of that node in \<open>self.nodes\<close>.
\<close>

definition within_radius :: "VRPNode \<Rightarrow> int \<Rightarrow> int \<Rightarrow> bool" where
  "within_radius node canvas_x canvas_y =
     (case vrp_to_canvas_coords (node_x node) (node_y node) of
        (nx, ny) \<Rightarrow> sqrt ((nx - of_int canvas_x)\<^sup>2 + (ny - of_int canvas_y)\<^sup>2) \<le> 10)"

fun clicked_node :: "VRPNode list \<Rightarrow> nat \<Rightarrow> int \<Rightarrow> int \<Rightarrow> nat option" where
  "clicked_node [] pos canvas_x canvas_y = None"
| "clicked_node (node # rest) pos canvas_x canvas_y =
     (if within_radius node canvas_x canvas_y then Some pos
      else clicked_node rest (Suc pos) canvas_x canvas_y)"

definition select_node :: "nat option \<Rightarrow> VRPApp \<Rightarrow> VRPApp" where
  "select_node node app = app\<lparr>selected_node := node\<rparr>"

definition on_canvas_click :: "int \<Rightarrow> int \<Rightarrow> VRPApp \<Rightarrow> VRPApp" where
  "on_canvas_click canvas_x canvas_y app =
     (case clicked_node (nodes app) 0 canvas_x canvas_y of
        Some pos \<Rightarrow> select_node (Some pos) app
      | None \<Rightarrow>
          (case canvas_to_vrp_coords (of_int canvas_x) (of_int canvas_y) of
             (vrp_x, vrp_y) \<Rightarrow>
               (case VRPNode_init vrp_x vrp_y False (id_counter app) of
                  (new_node, counter) \<Rightarrow>
                    select_node (Some (length (nodes app)))
                      (app\<lparr>nodes := nodes app @ [new_node], id_counter := counter\<rparr>))))"

text \<open>
  \<open>self.nodes.remove(clicked_node)\<close> removes the clicked object (nodes compare by
  identity). The selection is dropped when the selected node has the id of the removed
  one; otherwise it keeps pointing at the same object, whose position moves down by one
  when it stood after the removed node.
\<close>

definition on_canvas_right_click :: "int \<Rightarrow> int \<Rightarrow> VRPApp \<Rightarrow> VRPApp \<times> dialog option" where
  "on_canvas_right_click canvas_x canvas_y app =
     (case clicked_node (nodes app) 0 canvas_x canvas_y of
        None \<Rightarrow> (app, None)
      | Some pos \<Rightarrow>
          if is_depot (nodes app ! pos)
          then (app, Some (showinfo ''Cannot Remove Depot'' ''The depot node cannot be removed.''))
          else
            (app\<lparr>nodes := take pos (nodes app) @ drop (Suc pos) (nodes app),
                 selected_node :=
                   (case selected_node app of
                      None \<Rightarrow> None
                    | Some sel \<Rightarrow>
                        if node_id (nodes app ! sel) = node_id (nodes app ! pos) then None
                        else if pos < sel then Some (sel - 1) else Some sel)\<rparr>,
             None))"

definition on_vehicle_count_change :: "int \<Rightarrow> VRPApp \<Rightarrow> VRPApp" where
  "on_vehicle_count_change new_count app =
     update_vehicle_skills_ui (app\<lparr>num_vehicles := new_count\<rparr>)"

text \<open>
  \<open>VRPNode.set_time_window\<close> as \<open>on_set_time_window\<close> calls it, with two ints: the
  conversion \<open>int(start_time)\<close> of an int cannot raise.
\<close>

definition set_time_window :: "int \<Rightarrow> int \<Rightarrow> VRPNode \<Rightarrow> VRPNode" where
  "set_time_window start_time end_time node = node\<lparr>time_window := Some (start_time, end_time)\<rparr>"

definition clear_time_window :: "VRPNode \<Rightarrow> VRPNode" where
  "clear_time_window node = node\<lparr>time_window := None\<rparr>"

text \<open>
  \<open>on_set_time_window\<close>. The two entry texts are arguments. \<open>py_int\<close> stands for the
  builtin \<open>int()\<close> on a string: \<open>None\<close> where it raises \<open>ValueError\<close>.
\<close>

definition on_set_time_window ::
  "(string \<Rightarrow> int option) \<Rightarrow> string \<Rightarrow> string \<Rightarrow> VRPApp \<Rightarrow> VRPApp \<times> dialog option"
where
  "on_set_time_window py_int start_entry end_entry app =
     (case selected_node app of
        None \<Rightarrow> (app, None)
      | Some sel \<Rightarrow>
          let start_text = strip start_entry; end_text = strip end_entry
          in if start_text = [] \<or> end_text = []
             then (app, Some (showwarning ''Invalid Time Window'' ''Please enter both start and end times.''))
             else
               (case py_int start_text of
                  None \<Rightarrow> (app, Some (showwarning ''Invalid Time Window'' ''Times must be integers.''))
                | Some start_time \<Rightarrow>
                    (case py_int end_text of
                       None \<Rightarrow> (app, Some (showwarning ''Invalid Time Window'' ''Times must be integers.''))
                     | Some end_time \<Rightarrow>
                         if start_time \<ge> end_time
                         then (app, Some (showwarning ''Invalid Time Window''
                                            ''End time must be greater than start time.''))
                         else if start_time < 0
                         then (app, Some (showwarning ''Invalid Time Window'' ''Times must be non-negative.''))
                         else (app\<lparr>nodes := (nodes app)[sel := set_time_window start_time end_time (nodes app ! sel)]\<rparr>,
                               None))))"

definition on_clear_time_window :: "VRPApp \<Rightarrow> VRPApp" where
  "on_clear_time_window app =
     (case selected_node app of
        None \<Rightarrow> app
      | Some sel \<Rightarrow> app\<lparr>nodes := (nodes app)[sel := clear_time_window (nodes app ! sel)]\<rparr>)"

definition on_add_skill :: "string \<Rightarrow> VRPApp \<Rightarrow> VRPApp \<times> dialog option" where
  "on_add_skill entry app =
     (let new_skill = strip entry
      in if new_skill = []
         then (app, Some (showwarning ''Invalid Skill'' ''Please enter a skill name.''))
         else if new_skill \<in> set (available_skills app)
         then (app, Some (showwarning ''Duplicate Skill'' (''Skill '' @ [CHR 0x27] @ new_skill @ [CHR 0x27] @ '' already exists.'')))
         else (update_skills_ui (app\<lparr>available_skills := available_skills app @ [new_skill]\<rparr>), None))"

text \<open>
  \<open>on_delete_skill\<close>; \<open>confirm\<close> is the answer to the yes/no question. \<open>list.remove\<close>
  removes the first occurrence and raises \<open>ValueError\<close> when there is none; the handler
  catches nothing, so the exception leaves the state as it was.
\<close>

definition on_delete_skill :: "string \<Rightarrow> bool \<Rightarrow> VRPApp \<Rightarrow> py_exception + VRPApp" where
  "on_delete_skill skill confirm app =
     (if confirm
      then if skill \<in> set (available_skills app)
           then Inr (update_skills_ui
                  (app\<lparr>available_skills := remove1 skill (available_skills app),
                       vehicle_skills :=
                         map (\<lambda>(vehicle_id, skills).
                                (vehicle_id, if skill \<in> set skills then remove1 skill skills else skills))
                           (vehicle_skills app),
                       nodes :=
                         map (\<lambda>node. if skill \<in> required_skills node
                                      then node\<lparr>required_skills := required_skills node - {skill}\<rparr>
                                      else node)
                           (nodes app)\<rparr>))
           else Inl (ValueError ''list.remove(x): x not in list'')
      else Inr app)"

definition on_vehicle_skill_toggle :: "int \<Rightarrow> string \<Rightarrow> bool \<Rightarrow> VRPApp \<Rightarrow> VRPApp" where
  "on_vehicle_skill_toggle vehicle_id skill var app =
     (if var
      then let vs = (if map_of (vehicle_skills app) vehicle_id = None
                     then AList.update vehicle_id [] (vehicle_skills app)
                     else vehicle_skills app);
               skills = (case map_of vs vehicle_id of None \<Rightarrow> [] | Some l \<Rightarrow> l)
           in if skill \<notin> set skills
              then app\<lparr>vehicle_skills := AList.update vehicle_id (skills @ [skill]) vs\<rparr>
              else app\<lparr>vehicle_skills := vs\<rparr>
      else (case map_of (vehicle_skills app) vehicle_id of
              None \<Rightarrow> app
            | Some skills \<Rightarrow>
                if skill \<in> set skills
                then app\<lparr>vehicle_skills := AList.update vehicle_id (remove1 skill skills) (vehicle_skills app)\<rparr>
                else app))"

definition add_required_skill :: "string \<Rightarrow> VRPNode \<Rightarrow> VRPNode" where
  "add_required_skill skill node = node\<lparr>required_skills := insert skill (required_skills node)\<rparr>"

definition remove_required_skill :: "string \<Rightarrow> VRPNode \<Rightarrow> VRPNode" where
  "remove_required_skill skill node =
     (if skill \<in> required_skills node
      then node\<lparr>required_skills := required_skills node - {skill}\<rparr>
      else node)"

definition on_node_skill_toggle :: "string \<Rightarrow> bool \<Rightarrow> VRPApp \<Rightarrow> VRPApp" where
  "on_node_skill_toggle skill var app =
     (case selected_node app of
        None \<Rightarrow> app
      | Some sel \<Rightarrow>
          if var
          then app\<lparr>nodes := (nodes app)[sel := add_required_skill skill (nodes app ! sel)]\<rparr>
          else app\<lparr>nodes := (nodes app)[sel := remove_required_skill skill (nodes app ! sel)]\<rparr>)"

definition on_clear_routes :: "VRPApp \<Rightarrow> VRPApp" where
  "on_clear_routes app = app\<lparr>routes := []\<rparr>"

definition on_clear_all :: "bool \<Rightarrow> VRPApp \<Rightarrow> VRPApp" where
  "on_clear_all confirm app =
     (if confirm
      then app\<lparr>nodes := filter is_depot (nodes app), routes := [], selected_node := None\<rparr>
      else app)"

subsection \<open>Loading a preset\<close>

text \<open>
  The parsed JSON document as \<open>on_load_preset\<close> reads it. Each of the four top-level
  keys may be missing. A node object is taken with all its six keys and well-typed
  values; the keys of the \<open>vehicle_skills\<close> object are strings.
\<close>

record node_dict =
  dict_id :: int
  dict_x :: real
  dict_y :: real
  dict_is_depot :: bool
  dict_time_window :: "(int \<times> int) option"
  dict_required_skills :: "string list"

record preset =
  preset_nodes :: "node_dict list option"
  preset_num_vehicles :: "int option"
  preset_available_skills :: "string list option"
  preset_vehicle_skills :: "(string \<times> string list) list option"

text \<open>
  \<open>VRPNode.from_dict\<close> calls the constructor, which takes an id from the counter and
  increments it for a customer, and then overwrites the id with the stored one.
\<close>

definition from_dict :: "node_dict \<Rightarrow> int \<Rightarrow> VRPNode \<times> int" where
  "from_dict d counter =
     (case VRPNode_init (dict_x d) (dict_y d) (dict_is_depot d) counter of
        (node, counter') \<Rightarrow>
          (node\<lparr>node_id := dict_id d, time_window := dict_time_window d,
                required_skills := set (dict_required_skills d)\<rparr>, counter'))"

text \<open>The loop over \<open>data["nodes"]\<close>, with the list built so far and the id counter.\<close>

fun load_nodes :: "node_dict list \<Rightarrow> VRPNode list \<Rightarrow> int \<Rightarrow> VRPNode list \<times> int" where
  "load_nodes [] ns counter = (ns, counter)"
| "load_nodes (node_data # rest) ns counter =
     (case from_dict node_data counter of
        (node, counter') \<Rightarrow>
          load_nodes rest (ns @ [node])
            (if \<not> is_depot node then max counter' (node_id node + 1) else counter'))"

text \<open>The dict comprehension \<open>{int(k): v for k, v in data["vehicle_skills"].items()}\<close>.\<close>

fun load_vehicle_skills ::
  "(string \<Rightarrow> int option) \<Rightarrow> (string \<times> string list) list \<Rightarrow> (int \<times> string list) list
   \<Rightarrow> py_exception + (int \<times> string list) list"
where
  "load_vehicle_skills py_int [] acc = Inr acc"
| "load_vehicle_skills py_int ((k, v) # rest) acc =
     (case py_int k of
        None \<Rightarrow> Inl (ValueError (''invalid literal for int() with base 10: '' @ [CHR 0x27] @ k @ [CHR 0x27]))
      | Some i \<Rightarrow> load_vehicle_skills py_int rest (AList.update i v acc))"

definition load_error :: "string \<Rightarrow> dialog" where
  "load_error e = showerror ''Load Error'' (''Error loading preset: '' @ e)"

text \<open>
  \<open>on_load_preset\<close>. The argument \<open>file\<close> is \<open>None\<close> when the file dialog was
  cancelled, \<open>Some (Inl e)\<close> when opening or parsing the file raised an exception with
  text \<open>e\<close>, and \<open>Some (Inr data)\<close> when \<open>json.load\<close> returned \<open>data\<close>. Every statement of
  the \<open>try\<close> block that assigns to \<open>self\<close> is a step of its own, so that an exception
  leaves the assignments made before it.
\<close>

definition on_load_preset ::
  "(string \<Rightarrow> int option) \<Rightarrow> (string + preset) option \<Rightarrow> VRPApp \<Rightarrow> VRPApp \<times> dialog option"
where
  "on_load_preset py_int file app =
     (case file of
        None \<Rightarrow> (app, None)
      | Some (Inl e) \<Rightarrow> (app, Some (load_error e))
      | Some (Inr data) \<Rightarrow>
          let app1 = app\<lparr>selected_node := None, nodes := [], routes := [], id_counter := 0\<rparr>
          in (case preset_nodes data of
                None \<Rightarrow> (app1, Some (load_error (str_of_exception (KeyError ''nodes''))))
              | Some node_dicts \<Rightarrow>
                  (case load_nodes node_dicts (nodes app1) (id_counter app1) of
                     (ns, counter) \<Rightarrow>
                       let app2 = app1\<lparr>nodes := ns, id_counter := counter\<rparr>
                       in (case preset_num_vehicles data of
                             None \<Rightarrow> (app2, Some (load_error (str_of_exception (KeyError ''num_vehicles''))))
                           | Some n \<Rightarrow>
                               let app3 = app2\<lparr>num_vehicles := n\<rparr>
                               in (case preset_available_skills data of
                                     None \<Rightarrow> (app3, Some (load_error (str_of_exception (KeyError ''available_skills''))))
                                   | Some skills \<Rightarrow>
                                       let app4 = app3\<lparr>available_skills := skills\<rparr>
                                       in (case preset_vehicle_skills data of
                                             None \<Rightarrow> (app4, Some (load_error (str_of_exception (KeyError ''vehicle_skills''))))
                                           | Some items \<Rightarrow>
                                               (case load_vehicle_skills py_int items [] of
                                                  Inl e \<Rightarrow> (app4, Some (load_error (str_of_exception e)))
                                                | Inr vs \<Rightarrow> (update_skills_ui (app4\<lparr>vehicle_skills := vs\<rparr>), None))))))))"

subsection \<open>Problem builder: \<open>prepare_solver_data\<close>\<close>

text \<open>Python's \<open>int()\<close> on a float truncates towards zero.\<close>

definition py_int_of_float :: "real \<Rightarrow> int" where
  "py_int_of_float r = (if 0 \<le> r then \<lfloor>r\<rfloor> else \<lceil>r\<rceil>)"

definition node_distance :: "VRPNode \<Rightarrow> VRPNode \<Rightarrow> int" where
  "node_distance node_i node_j =
     py_int_of_float (sqrt ((node_x node_i - node_x node_j)\<^sup>2 + (node_y node_i - node_y node_j)\<^sup>2) * 100)"

text \<open>
  The two nested \<open>for\<close> loops over \<open>range(num_nodes)\<close>, each iteration assigning
  \<open>distance_matrix[i][j]\<close>.
\<close>

definition set_entry :: "VRPNode list \<Rightarrow> nat \<Rightarrow> nat \<Rightarrow> int list list \<Rightarrow> int list list" where
  "set_entry ns i j m =
     (if i = j then m[i := (m ! i)[j := 0]]
      else m[i := (m ! i)[j := node_distance (ns ! i) (ns ! j)]])"

definition fill_row :: "VRPNode list \<Rightarrow> nat \<Rightarrow> int list list \<Rightarrow> int list list" where
  "fill_row ns i m = fold (set_entry ns i) [0..<length ns] m"

definition fill_matrix :: "VRPNode list \<Rightarrow> int list list \<Rightarrow> int list list" where
  "fill_matrix ns m = fold (fill_row ns) [0..<length ns] m"

record solver_data =
  data_distance_matrix :: "int list list"
  data_num_vehicles :: int
  data_depot :: nat

definition prepare_solver_data :: "VRPApp \<Rightarrow> solver_data" where
  "prepare_solver_data app =
     (let num_nodes = length (nodes app);
          distance_matrix = replicate num_nodes (replicate num_nodes 0)
      in \<lparr>data_distance_matrix = fill_matrix (nodes app) distance_matrix,
          data_num_vehicles = num_vehicles app,
          data_depot = 0\<rparr>)"

subsection \<open>The routing library as the solver thread uses it\<close>

text \<open>
  The OR-tools objects are external. The model records what \<open>run_vrp_solver\<close> hands to
  them: the index manager's arguments, the arc cost evaluator (the distance callback reads
  the matrix), the dimensions with their cumul ranges, and the allowed vehicles of each
  node position.
\<close>

datatype FirstSolutionStrategy = AUTOMATIC_STRATEGY | PATH_CHEAPEST_ARC | SAVINGS

datatype LocalSearchMetaheuristic = AUTOMATIC_SEARCH | GUIDED_LOCAL_SEARCH | SIMULATED_ANNEALING

record RoutingSearchParameters =
  first_solution_strategy :: FirstSolutionStrategy
  local_search_metaheuristic :: LocalSearchMetaheuristic
  time_limit_seconds :: int

definition DefaultRoutingSearchParameters :: RoutingSearchParameters where
  "DefaultRoutingSearchParameters =
     \<lparr>first_solution_strategy = AUTOMATIC_STRATEGY,
      local_search_metaheuristic = AUTOMATIC_SEARCH,
      time_limit_seconds = 0\<rparr>"

record dimension =
  dim_name :: string
  dim_slack_max :: int
  dim_capacity :: int
  dim_fix_start_cumul_to_zero :: bool
  dim_global_span_cost_coefficient :: int
  dim_cumul_ranges :: "(nat \<times> int \<times> int) list"

record RoutingModel =
  manager_num_nodes :: nat
  manager_num_vehicles :: int
  manager_depot :: nat
  arc_cost_matrix :: "int list list"
  dimensions :: "dimension list"
  vehicle_var_values :: "(nat \<times> nat list) list"

text \<open>
  What the extraction loop reads after a successful solve: \<open>routing.Start\<close>,
  \<open>routing.IsEnd\<close>, \<open>manager.IndexToNode\<close>, \<open>solution.Value(routing.NextVar(index))\<close>
  and \<open>routing.GetArcCostForVehicle\<close>.
\<close>

record Assignment =
  Start :: "nat \<Rightarrow> nat"
  IsEnd :: "nat \<Rightarrow> bool"
  IndexToNode :: "nat \<Rightarrow> nat"
  NextVar_Value :: "nat \<Rightarrow> nat"
  GetArcCostForVehicle :: "nat \<Rightarrow> nat \<Rightarrow> nat \<Rightarrow> int"

text \<open>\<open>routing.SolveWithParameters\<close>: \<open>None\<close> when no solution is found.\<close>

type_synonym SolveWithParameters = "RoutingModel \<Rightarrow> RoutingSearchParameters \<Rightarrow> Assignment option"

subsection \<open>Solver thread: \<open>run_vrp_solver\<close>\<close>

definition has_time_windows :: "VRPApp \<Rightarrow> bool" where
  "has_time_windows app = list_ex (\<lambda>node. time_window node \<noteq> None) (nodes app)"

definition has_skills :: "VRPApp \<Rightarrow> bool" where
  "has_skills app = list_ex (\<lambda>node. required_skills node \<noteq> {}) (nodes app)"

text \<open>\<open>self.vehicle_skills.get(v_id, [])\<close>\<close>

definition vehicle_skills_get :: "VRPApp \<Rightarrow> int \<Rightarrow> string list" where
  "vehicle_skills_get app v_id =
     (case map_of (vehicle_skills app) v_id of None \<Rightarrow> [] | Some skills \<Rightarrow> skills)"

text \<open>
  The inner loop building \<open>valid_vehicles\<close> for one node: every \<open>v_id\<close> in
  \<open>range(data["num_vehicles"])\<close> whose skill list holds all the node's required skills.
\<close>

definition valid_vehicles :: "VRPApp \<Rightarrow> solver_data \<Rightarrow> VRPNode \<Rightarrow> nat list" where
  "valid_vehicles app data node =
     filter (\<lambda>v_id. \<forall>skill \<in> required_skills node. skill \<in> set (vehicle_skills_get app (int v_id)))
       [0..<nat (data_num_vehicles data)]"

text \<open>
  The first skills loop: the first node, in list order, that requires skills and has no
  valid vehicle. The loop puts an error for it and returns.
\<close>

definition unserved_node :: "VRPApp \<Rightarrow> solver_data \<Rightarrow> VRPNode option" where
  "unserved_node app data =
     find (\<lambda>node. required_skills node \<noteq> {} \<and> valid_vehicles app data node = []) (nodes app)"

definition distance_dimension :: dimension where
  "distance_dimension =
     \<lparr>dim_name = ''Distance'', dim_slack_max = 0, dim_capacity = 30000,
      dim_fix_start_cumul_to_zero = True, dim_global_span_cost_coefficient = 100,
      dim_cumul_ranges = []\<rparr>"

text \<open>The time dimension with \<open>SetRange\<close> applied at every node position that has a window.\<close>

definition time_dimension :: "VRPApp \<Rightarrow> dimension" where
  "time_dimension app =
     \<lparr>dim_name = ''Time'', dim_slack_max = 30, dim_capacity = 30000,
      dim_fix_start_cumul_to_zero = False, dim_global_span_cost_coefficient = 0,
      dim_cumul_ranges =
        concat (map (\<lambda>(node_idx, node).
                  (case time_window node of None \<Rightarrow> [] | Some (s, e) \<Rightarrow> [(node_idx, s, e)]))
                (zip [0..<length (nodes app)] (nodes app)))\<rparr>"

text \<open>The second skills loop: \<open>VehicleVar(index).SetValues(valid_vehicles)\<close>.\<close>

definition allowed_vehicles :: "VRPApp \<Rightarrow> solver_data \<Rightarrow> (nat \<times> nat list) list" where
  "allowed_vehicles app data =
     concat (map (\<lambda>(node_idx, node).
               (if required_skills node = {} \<or> is_depot node then []
                else [(node_idx, valid_vehicles app data node)]))
             (zip [0..<length (nodes app)] (nodes app)))"

definition build_routing :: "VRPApp \<Rightarrow> solver_data \<Rightarrow> RoutingModel" where
  "build_routing app data =
     \<lparr>manager_num_nodes = length (data_distance_matrix data),
      manager_num_vehicles = data_num_vehicles data,
      manager_depot = data_depot data,
      arc_cost_matrix = data_distance_matrix data,
      dimensions = distance_dimension # (if has_time_windows app then [time_dimension app] else []),
      vehicle_var_values = (if has_skills app then allowed_vehicles app data else [])\<rparr>"

definition search_parameters :: "VRPApp \<Rightarrow> RoutingSearchParameters" where
  "search_parameters app =
     (let p0 = DefaultRoutingSearchParameters;
          p1 = p0\<lparr>first_solution_strategy := PATH_CHEAPEST_ARC\<rparr>;
          p2 = (if length (nodes app) > 20 then p1\<lparr>first_solution_strategy := SAVINGS\<rparr> else p1);
          p3 = p2\<lparr>time_limit_seconds := 10\<rparr>
      in if has_time_windows app \<or> has_skills app \<or> length (nodes app) > 15
         then p3\<lparr>local_search_metaheuristic := GUIDED_LOCAL_SEARCH, time_limit_seconds := 15\<rparr>
         else p3)"

definition fallback_parameters :: RoutingSearchParameters where
  "fallback_parameters =
     DefaultRoutingSearchParameters
       \<lparr>first_solution_strategy := SAVINGS,
        local_search_metaheuristic := SIMULATED_ANNEALING,
        time_limit_seconds := 20\<rparr>"

text \<open>
  The \<open>while not routing.IsEnd(index)\<close> loop of one vehicle. It follows the next
  pointers of the external assignment, so it is a partial function: \<open>None\<close> is a walk
  that never reaches an end index. The ids are read from \<open>self.nodes\<close> as it is when the
  loop runs (the argument \<open>ns\<close>).
\<close>

partial_function (option) walk_route ::
  "Assignment \<Rightarrow> VRPNode list \<Rightarrow> nat \<Rightarrow> nat \<Rightarrow> int list \<Rightarrow> int \<Rightarrow> (py_exception + int list \<times> int \<times> nat) option"
where
  "walk_route sol ns vehicle_id index route route_distance =
     (if IsEnd sol index then Some (Inr (route, route_distance, index))
      else if IndexToNode sol index < length ns
      then walk_route sol ns vehicle_id (NextVar_Value sol index)
             (route @ [node_id (ns ! IndexToNode sol index)])
             (route_distance + GetArcCostForVehicle sol index (NextVar_Value sol index) vehicle_id)
      else Some (Inl IndexError))"

text \<open>The \<open>for vehicle_id in range(data["num_vehicles"])\<close> loop around it.\<close>

fun extract_routes ::
  "Assignment \<Rightarrow> VRPNode list \<Rightarrow> nat list \<Rightarrow> int list list \<Rightarrow> int \<Rightarrow> (py_exception + int list list \<times> int) option"
where
  "extract_routes sol ns [] rs max_route_distance = Some (Inr (rs, max_route_distance))"
| "extract_routes sol ns (vehicle_id # rest) rs max_route_distance =
     (case walk_route sol ns vehicle_id (Start sol vehicle_id) [] 0 of
        None \<Rightarrow> None
      | Some (Inl e) \<Rightarrow> Some (Inl e)
      | Some (Inr (route, route_distance, index)) \<Rightarrow>
          if IndexToNode sol index < length ns
          then extract_routes sol ns rest
                 (rs @ [route @ [node_id (ns ! IndexToNode sol index)]])
                 (max route_distance max_route_distance)
          else Some (Inl IndexError))"

text \<open>
  One run of the solver thread: the messages it put on the queue, the search parameters
  of each \<open>SolveWithParameters\<close> call in order, and whether the thread returned
  (\<open>False\<close> when an extraction loop never ends).
\<close>

record run_result =
  put_messages :: "message list"
  solve_calls :: "RoutingSearchParameters list"
  returned :: bool

text \<open>
  The end of a successful attempt: the success message, or the message of the
  \<open>except Exception\<close> handler when the extraction raised.
\<close>

definition deliver ::
  "message list \<Rightarrow> RoutingSearchParameters list \<Rightarrow> (py_exception + int list list \<times> int) option \<Rightarrow> run_result"
where
  "deliver q calls r =
     (case r of
        None \<Rightarrow> \<lparr>put_messages = q, solve_calls = calls, returned = False\<rparr>
      | Some (Inl e) \<Rightarrow>
          \<lparr>put_messages = q @ [Error (ErrorDuringSolving (str_of_exception e))],
           solve_calls = calls, returned = True\<rparr>
      | Some (Inr (rs, max_route_distance)) \<Rightarrow>
          \<lparr>put_messages = q @ [Success rs max_route_distance],
           solve_calls = calls, returned = True\<rparr>)"

text \<open>The first debug message: node count, customer count and vehicle count.\<close>

definition debug_msg :: "VRPApp \<Rightarrow> debug_text" where
  "debug_msg app =
     (let node_count = length (nodes app);
          customer_count = length (filter (\<lambda>node. \<not> is_depot node) (nodes app))
      in SolvingWith node_count customer_count (num_vehicles app))"

text \<open>
  \<open>run_vrp_solver\<close> runs in its own thread while the interface thread keeps editing
  \<open>self\<close>. The thread reads \<open>self\<close> while it builds the problem (\<open>app\<close>), again after
  the first \<open>SolveWithParameters\<close> call returned (\<open>live1\<close>) and again after the
  second (\<open>live2\<close>). With no edit in between the three are the same state.
\<close>

definition run_vrp_solver :: "SolveWithParameters \<Rightarrow> VRPApp \<Rightarrow> VRPApp \<Rightarrow> VRPApp \<Rightarrow> run_result" where
  "run_vrp_solver solve app live1 live2 =
     (let q0 = [Debug (debug_msg app)];
          data = prepare_solver_data app;
          routing = build_routing app data;
          vehicles = [0..<nat (data_num_vehicles data)]
      in case (if has_skills app then unserved_node app data else None) of
           Some node \<Rightarrow>
             \<lparr>put_messages = q0 @ [Error (NoVehicleHasSkills (node_id node) (required_skills node))],
              solve_calls = [], returned = True\<rparr>
         | None \<Rightarrow>
            (case solve routing (search_parameters app) of
               Some solution \<Rightarrow>
                 deliver q0 [search_parameters app] (extract_routes solution (nodes live1) vehicles [] 0)
             | None \<Rightarrow>
                 if length (nodes live1) \<le> 1
                 then \<lparr>put_messages = q0 @ [Error NeedCustomer],
                       solve_calls = [search_parameters app], returned = True\<rparr>
                 else if data_num_vehicles data < 1
                 then \<lparr>put_messages = q0 @ [Error NeedVehicle],
                       solve_calls = [search_parameters app], returned = True\<rparr>
                 else if has_time_windows app
                 then \<lparr>put_messages = q0 @ [Error RelaxTimeWindows],
                       solve_calls = [search_parameters app], returned = True\<rparr>
                 else if has_skills app
                 then \<lparr>put_messages = q0 @ [Error CheckVehicleSkills],
                       solve_calls = [search_parameters app], returned = True\<rparr>
                 else
                   (case solve routing fallback_parameters of
                      Some solution \<Rightarrow>
                        deliver (q0 @ [Debug FirstAttemptFailed])
                          [search_parameters app, fallback_parameters]
                          (extract_routes solution (nodes live2) vehicles [] 0)
                    | None \<Rightarrow>
                        \<lparr>put_messages = q0 @ [Debug FirstAttemptFailed, Error MoreVehiclesOrCheckConstraints],
                         solve_calls = [search_parameters app, fallback_parameters],
                         returned = True\<rparr>)))"

subsection \<open>Starting a solve and receiving its result\<close>

text \<open>
  \<open>on_solve_vrp\<close> shows a message when there are fewer than two nodes and starts the
  solver thread otherwise; it changes no scenario data. The result is the message box, or
  \<open>None\<close> when the thread was started.
\<close>

definition on_solve_vrp :: "VRPApp \<Rightarrow> dialog option" where
  "on_solve_vrp app =
     (if length (nodes app) < 2
      then Some (showinfo ''Not Enough Nodes'' ''Please add at least one customer node.'')
      else None)"

text \<open>\<open>self.queue.put\<close>, the only write of the solver thread to the application object.\<close>

definition queue_put :: "message \<Rightarrow> VRPApp \<Rightarrow> VRPApp" where
  "queue_put m app = app\<lparr>queue := queue app @ [m]\<rparr>"

definition check_solver_results :: "VRPApp \<Rightarrow> VRPApp \<times> dialog option" where
  "check_solver_results app =
     (case queue app of
        [] \<Rightarrow> (app, None)
      | result # rest \<Rightarrow>
          (case result of
             Success rs max_distance \<Rightarrow> (app\<lparr>queue := rest, routes := rs\<rparr>, None)
           | Debug progress \<Rightarrow> (app\<lparr>queue := rest\<rparr>, None)
           | Error error_msg \<Rightarrow> (app\<lparr>queue := rest\<rparr>, Some (showerror_solver error_msg))))"

subsection \<open>Scenario states the interface can reach\<close>

text \<open>
  The states reached from the initial one by the handlers above. A preset load is a step
  when it ends without an error and the preset lists a depot as its first node, as the
  presets written from such a state do.
\<close>

inductive reachable :: "VRPApp \<Rightarrow> bool" where
  r_init: "reachable VRPApp_init"
| r_click: "reachable app \<Longrightarrow> reachable (on_canvas_click cx cy app)"
| r_right_click: "reachable app \<Longrightarrow> reachable (fst (on_canvas_right_click cx cy app))"
| r_vehicle_count: "reachable app \<Longrightarrow> reachable (on_vehicle_count_change n app)"
| r_set_time_window: "reachable app \<Longrightarrow> reachable (fst (on_set_time_window py_int s e app))"
| r_clear_time_window: "reachable app \<Longrightarrow> reachable (on_clear_time_window app)"
| r_add_skill: "reachable app \<Longrightarrow> reachable (fst (on_add_skill s app))"
| r_delete_skill: "reachable app \<Longrightarrow> on_delete_skill s c app = Inr app' \<Longrightarrow> reachable app'"
| r_vehicle_skill: "reachable app \<Longrightarrow> reachable (on_vehicle_skill_toggle v s b app)"
| r_node_skill: "reachable app \<Longrightarrow> reachable (on_node_skill_toggle s b app)"
| r_clear_routes: "reachable app \<Longrightarrow> reachable (on_clear_routes app)"
| r_clear_all: "reachable app \<Longrightarrow> reachable (on_clear_all c app)"
| r_load: "reachable app \<Longrightarrow> on_load_preset py_int (Some (Inr data)) app = (app', None)
           \<Longrightarrow> preset_nodes data = Some (d # ds) \<Longrightarrow> dict_is_depot d \<Longrightarrow> reachable app'"
| r_queue_put: "reachable app \<Longrightarrow> reachable (queue_put m app)"
| r_check_results: "reachable app \<Longrightarrow> reachable (fst (check_solver_results app))"

subsection \<open>Example scenarios\<close>

text \<open>
  A fresh application with one click at canvas point (450, 300), which is the problem-space
  point (5, 0); then a second click at (350, 300), the point (-5, 0), and one vehicle.
\<close>

definition one_customer :: VRPApp where
  "one_customer = on_canvas_click 450 300 VRPApp_init"

definition two_customers :: VRPApp where
  "two_customers = on_vehicle_count_change 1 (on_canvas_click 350 300 one_customer)"

text \<open>One customer that requires the skill electrician, and one vehicle without skills.\<close>

definition electrician_needed :: VRPApp where
  "electrician_needed =
     on_node_skill_toggle ''electrician'' True
       (fst (on_add_skill ''electrician'' (on_vehicle_count_change 1 one_customer)))"

text \<open>The same scenario after vehicle 0 was given that skill.\<close>

definition electrician_hired :: VRPApp where
  "electrician_hired = on_vehicle_skill_toggle 0 ''electrician'' True electrician_needed"

text \<open>
  A solver answer for a one-vehicle problem: the vehicle visits the node positions in list
  order and returns to the depot; routing indices from the number of nodes on are end
  indices, and an arc costs what the cost matrix says.
\<close>

definition single_route_solver :: SolveWithParameters where
  "single_route_solver routing parameters =
     Some \<lparr>Start = (\<lambda>vehicle_id. 0),
           IsEnd = (\<lambda>index. manager_num_nodes routing \<le> index),
           IndexToNode = (\<lambda>index. if index < manager_num_nodes routing then index else manager_depot routing),
           NextVar_Value = Suc,
           GetArcCostForVehicle =
             (\<lambda>from_index to_index vehicle_id.
                arc_cost_matrix routing
                  ! (if from_index < manager_num_nodes routing then from_index else manager_depot routing)
                  ! (if to_index < manager_num_nodes routing then to_index else manager_depot routing))\<rparr>"

text \<open>A solver that never finds a solution.\<close>

definition no_solution_solver :: SolveWithParameters where
  "no_solution_solver routing parameters = None"

text \<open>
  A reading of \<open>int()\<close> on optionally signed ASCII decimal literals, to run the handlers
  that take the conversion as an argument.
\<close>

definition digit_of :: "char \<Rightarrow> nat option" where
  "digit_of c =
     (if of_char c \<ge> (48::nat) \<and> of_char c \<le> (57::nat) then Some (of_char c - 48) else None)"

fun digits_value :: "string \<Rightarrow> nat \<Rightarrow> nat option" where
  "digits_value [] acc = Some acc"
| "digits_value (c # cs) acc =
     (case digit_of c of None \<Rightarrow> None | Some k \<Rightarrow> digits_value cs (10 * acc + k))"

definition decimal_int :: "string \<Rightarrow> int option" where
  "decimal_int s =
     (case s of
        [] \<Rightarrow> None
      | c # cs \<Rightarrow>
          if c = CHR ''-'' then (if cs = [] then None else map_option (\<lambda>n. - int n) (digits_value cs 0))
          else if c = CHR ''+'' then (if cs = [] then None else map_option int (digits_value cs 0))
          else map_option int (digits_value s 0))"

section \<open>Properties\<close>

subsection \<open>The example scenarios, evaluated\<close>

lemma sqrt_le_10: "sqrt x \<le> 10 \<longleftrightarrow> x \<le> 100"
proof -
  have "sqrt x \<le> sqrt 100 \<longleftrightarrow> x \<le> 100" by (rule real_sqrt_le_iff)
  then show ?thesis by simp
qed

lemma VRPApp_init_eq:
  "VRPApp_init =
     \<lparr>nodes = [\<lparr>node_id = 0, node_x = 0, node_y = 0, is_depot = True, time_window = None, required_skills = {}\<rparr>],
      selected_node = None, num_vehicles = 4, available_skills = [],
      vehicle_skills = [(0, []), (1, []), (2, []), (3, [])], routes = [], queue = [], id_counter = 0\<rparr>"
  by (simp add: VRPApp_init_def update_vehicle_skills_ui_def canvas_to_vrp_coords_def
      canvas_width_def canvas_height_def scale_factor_def VRPNode_init_def Let_def upt_conv_Cons
      numeral_eq_Suc)

lemma one_customer_eq:
  "one_customer =
     \<lparr>nodes = [\<lparr>node_id = 0, node_x = 0, node_y = 0, is_depot = True, time_window = None, required_skills = {}\<rparr>,
               \<lparr>node_id = 0, node_x = 5, node_y = 0, is_depot = False, time_window = None, required_skills = {}\<rparr>],
      selected_node = Some 1, num_vehicles = 4, available_skills = [],
      vehicle_skills = [(0, []), (1, []), (2, []), (3, [])], routes = [], queue = [], id_counter = 1\<rparr>"
  by (simp add: one_customer_def VRPApp_init_eq on_canvas_click_def within_radius_def sqrt_le_10
      vrp_to_canvas_coords_def canvas_to_vrp_coords_def canvas_width_def canvas_height_def
      scale_factor_def VRPNode_init_def select_node_def Let_def)

lemma two_customers_eq:
  "two_customers =
     \<lparr>nodes = [\<lparr>node_id = 0, node_x = 0, node_y = 0, is_depot = True, time_window = None, required_skills = {}\<rparr>,
               \<lparr>node_id = 0, node_x = 5, node_y = 0, is_depot = False, time_window = None, required_skills = {}\<rparr>,
               \<lparr>node_id = 1, node_x = -5, node_y = 0, is_depot = False, time_window = None, required_skills = {}\<rparr>],
      selected_node = Some 2, num_vehicles = 1, available_skills = [],
      vehicle_skills = [(0, []), (1, []), (2, []), (3, [])], routes = [], queue = [], id_counter = 2\<rparr>"
  by (simp add: two_customers_def one_customer_eq on_canvas_click_def within_radius_def sqrt_le_10
      vrp_to_canvas_coords_def canvas_to_vrp_coords_def canvas_width_def canvas_height_def
      scale_factor_def VRPNode_init_def select_node_def Let_def on_vehicle_count_change_def
      update_vehicle_skills_ui_def)

lemma electrician_needed_eq:
  "electrician_needed =
     \<lparr>nodes = [\<lparr>node_id = 0, node_x = 0, node_y = 0, is_depot = True, time_window = None, required_skills = {}\<rparr>,
               \<lparr>node_id = 0, node_x = 5, node_y = 0, is_depot = False, time_window = None,
                required_skills = {''electrician''}\<rparr>],
      selected_node = Some 1, num_vehicles = 1, available_skills = [''electrician''],
      vehicle_skills = [(0, []), (1, []), (2, []), (3, [])], routes = [], queue = [], id_counter = 1\<rparr>"
  by (simp add: electrician_needed_def one_customer_eq on_vehicle_count_change_def
      update_vehicle_skills_ui_def on_add_skill_def strip_def is_space_def update_skills_ui_def
      on_node_skill_toggle_def add_required_skill_def Let_def)

lemma two_customers_after_removal:
  "fst (on_canvas_right_click 450 300 two_customers) =
     \<lparr>nodes = [\<lparr>node_id = 0, node_x = 0, node_y = 0, is_depot = True, time_window = None, required_skills = {}\<rparr>,
               \<lparr>node_id = 1, node_x = -5, node_y = 0, is_depot = False, time_window = None, required_skills = {}\<rparr>],
      selected_node = Some 1, num_vehicles = 1, available_skills = [],
      vehicle_skills = [(0, []), (1, []), (2, []), (3, [])], routes = [], queue = [], id_counter = 2\<rparr>"
  by (simp add: two_customers_eq on_canvas_right_click_def within_radius_def sqrt_le_10
      vrp_to_canvas_coords_def canvas_width_def canvas_height_def scale_factor_def)

lemma two_customers_nodes:
  "nodes two_customers =
     [\<lparr>node_id = 0, node_x = 0, node_y = 0, is_depot = True, time_window = None, required_skills = {}\<rparr>,
      \<lparr>node_id = 0, node_x = 5, node_y = 0, is_depot = False, time_window = None, required_skills = {}\<rparr>,
      \<lparr>node_id = 1, node_x = -5, node_y = 0, is_depot = False, time_window = None, required_skills = {}\<rparr>]"
  "num_vehicles two_customers = 1"
  by (simp_all add: two_customers_eq)

lemma two_customers_unconstrained:
  "has_time_windows two_customers = False" "has_skills two_customers = False"
  by (simp_all add: has_time_windows_def has_skills_def two_customers_nodes)

lemma two_customers_matrix:
  "data_distance_matrix (prepare_solver_data two_customers) = [[0, 500, 500], [500, 0, 1000], [500, 1000, 0]]"
  by (simp add: prepare_solver_data_def two_customers_nodes Let_def fill_matrix_def fill_row_def
      set_entry_def node_distance_def py_int_of_float_def upt_conv_Cons numeral_eq_Suc)

lemma two_customers_parameters:
  "search_parameters two_customers =
     \<lparr>first_solution_strategy = PATH_CHEAPEST_ARC,
      local_search_metaheuristic = AUTOMATIC_SEARCH, time_limit_seconds = 10\<rparr>"
  by (simp add: search_parameters_def two_customers_unconstrained DefaultRoutingSearchParameters_def
      Let_def two_customers_nodes)

lemma two_customers_routing:
  "build_routing two_customers (prepare_solver_data two_customers) =
     \<lparr>manager_num_nodes = 3, manager_num_vehicles = 1, manager_depot = 0,
      arc_cost_matrix = [[0, 500, 500], [500, 0, 1000], [500, 1000, 0]],
      dimensions = [distance_dimension], vehicle_var_values = []\<rparr>"
proof -
  have "data_num_vehicles (prepare_solver_data two_customers) = 1"
    "data_depot (prepare_solver_data two_customers) = 0"
    by (simp_all add: prepare_solver_data_def Let_def two_customers_nodes)
  then show ?thesis
    by (simp add: build_routing_def two_customers_matrix two_customers_unconstrained)
qed

lemma reachable_one_customer: "reachable one_customer"
  unfolding one_customer_def by (rule r_click) (rule r_init)

lemma reachable_two_customers: "reachable two_customers"
  unfolding two_customers_def by (rule r_vehicle_count) (rule r_click, rule reachable_one_customer)

subsection \<open>Coordinate mapper\<close>

text \<open>
  Claim C10. The two coordinate transforms are the affine pair
  \<open>canvas = (x * 10 + 400, 300 - y * 10)\<close> and \<open>vrp = ((cx - 400) / 10, (300 - cy) / 10)\<close>,
  with the vertical axis inverted, and over the real numbers mapping a problem-space
  point to the canvas and back returns the point itself.
\<close>

theorem coordinate_round_trip:
  "vrp_to_canvas_coords px py = (px * 10 + 400, 300 - py * 10)
   \<and> canvas_to_vrp_coords cx cy = ((cx - 400) / 10, (300 - cy) / 10)
   \<and> (case vrp_to_canvas_coords px py of (cx', cy') \<Rightarrow> canvas_to_vrp_coords cx' cy') = (px, py)"
  by (simp add: vrp_to_canvas_coords_def canvas_to_vrp_coords_def canvas_width_def
      canvas_height_def scale_factor_def)

subsection \<open>Distance matrix\<close>

lemma set_entry_eq:
  "set_entry ns i j m = m[i := (m ! i)[j := (if i = j then 0 else node_distance (ns ! i) (ns ! j))]]"
  by (simp add: set_entry_def)

lemma fold_set_entry:
  "i < length m \<Longrightarrow> k \<le> length (m ! i) \<Longrightarrow>
   fold (set_entry ns i) [0..<k] m =
     m[i := map (\<lambda>j. if i = j then 0 else node_distance (ns ! i) (ns ! j)) [0..<k] @ drop k (m ! i)]"
proof (induction k)
  case 0
  then show ?case by simp
next
  case (Suc k)
  then have k: "k < length (m ! i)" by simp
  have "drop k (m ! i) = (m ! i) ! k # drop (Suc k) (m ! i)"
    using k by (simp add: Cons_nth_drop_Suc)
  then show ?case
    using Suc k by (simp add: set_entry_eq list_update_append)
qed

lemma fill_row_eq:
  "i < length m \<Longrightarrow> length (m ! i) = length ns \<Longrightarrow>
   fill_row ns i m = m[i := map (\<lambda>j. if i = j then 0 else node_distance (ns ! i) (ns ! j)) [0..<length ns]]"
  by (simp add: fill_row_def fold_set_entry)

lemma fold_fill_row:
  "k \<le> length m \<Longrightarrow> \<forall>r \<in> set m. length r = length ns \<Longrightarrow>
   fold (fill_row ns) [0..<k] m =
     map (\<lambda>i. map (\<lambda>j. if i = j then 0 else node_distance (ns ! i) (ns ! j)) [0..<length ns]) [0..<k]
       @ drop k m"
proof (induction k)
  case 0
  then show ?case by simp
next
  case (Suc k)
  then have k: "k < length m" by simp
  have d: "drop k m = m ! k # drop (Suc k) m"
    using k by (simp add: Cons_nth_drop_Suc)
  let ?f = "\<lambda>i. map (\<lambda>j. if i = j then 0 else node_distance (ns ! i) (ns ! j)) [0..<length ns]"
  have "fold (fill_row ns) [0..<Suc k] m = fill_row ns k (map ?f [0..<k] @ drop k m)"
    using Suc by simp
  also have "\<dots> = (map ?f [0..<k] @ drop k m)[k := ?f k]"
    using k Suc.prems by (subst fill_row_eq) (simp_all add: nth_append)
  also have "\<dots> = map ?f [0..<Suc k] @ drop (Suc k) m"
    using k d by (simp add: list_update_append)
  finally show ?case .
qed

lemma fill_matrix_eq:
  "fill_matrix ns (replicate (length ns) (replicate (length ns) 0)) =
     map (\<lambda>i. map (\<lambda>j. if i = j then 0 else node_distance (ns ! i) (ns ! j)) [0..<length ns])
       [0..<length ns]"
  by (simp add: fill_matrix_def fold_fill_row)

lemma node_distance_sym: "node_distance a b = node_distance b a"
  by (simp add: node_distance_def power2_commute)

lemma node_distance_floor:
  "node_distance a b = \<lfloor>sqrt ((node_x a - node_x b)\<^sup>2 + (node_y a - node_y b)\<^sup>2) * 100\<rfloor>"
  by (simp add: node_distance_def py_int_of_float_def)

lemma distance_matrix_eq:
  "data_distance_matrix (prepare_solver_data app) =
     map (\<lambda>i. map (\<lambda>j. if i = j then 0 else node_distance (nodes app ! i) (nodes app ! j))
                 [0..<length (nodes app)])
       [0..<length (nodes app)]"
  by (simp add: prepare_solver_data_def Let_def fill_matrix_eq)

subsection \<open>The depot stays first\<close>

lemma clicked_node_range:
  "clicked_node ns pos cx cy = Some i \<Longrightarrow> pos \<le> i \<and> i < pos + length ns"
  by (induction ns arbitrary: pos) (auto split: if_splits, fastforce+)

lemma load_nodes_prefix:
  "load_nodes ds ns c = (ns', c') \<Longrightarrow> ns \<noteq> [] \<Longrightarrow> ns' \<noteq> [] \<and> ns' ! 0 = ns ! 0"
proof (induction ds arbitrary: ns c)
  case Nil
  then show ?case by simp
next
  case (Cons d ds)
  obtain node k where fd: "from_dict d c = (node, k)" by (cases "from_dict d c")
  from Cons.prems(1) fd
  have "load_nodes ds (ns @ [node]) (if \<not> is_depot node then max k (node_id node + 1) else k) = (ns', c')"
    by simp
  from Cons.IH [OF this] Cons.prems(2) show ?case by (simp add: nth_append)
qed

lemma from_dict_is_depot: "is_depot (fst (from_dict d c)) = dict_is_depot d"
  by (simp add: from_dict_def VRPNode_init_def)

lemma load_nodes_first:
  assumes "load_nodes (d # ds) [] c = (ns', c')"
  shows "ns' \<noteq> [] \<and> is_depot (ns' ! 0) = dict_is_depot d"
proof -
  obtain node k where fd: "from_dict d c = (node, k)" by (cases "from_dict d c")
  with assms have "load_nodes ds [node] (if \<not> is_depot node then max k (node_id node + 1) else k) = (ns', c')"
    by simp
  from load_nodes_prefix [OF this] have "ns' \<noteq> [] \<and> ns' ! 0 = node" by simp
  moreover have "is_depot node = dict_is_depot d" using from_dict_is_depot [of d c] fd by simp
  ultimately show ?thesis by simp
qed

lemma nodes_update_vehicle_skills_ui [simp]: "nodes (update_vehicle_skills_ui app) = nodes app"
  by (simp add: update_vehicle_skills_ui_def)

lemma nodes_update_skills_ui [simp]: "nodes (update_skills_ui app) = nodes app"
  by (simp add: update_skills_ui_def)

lemma update_keeps_depot_first:
  assumes "ns \<noteq> []" and "is_depot (ns ! 0)" and "is_depot (f (ns ! i)) = is_depot (ns ! i)"
  shows "ns[i := f (ns ! i)] \<noteq> [] \<and> is_depot (ns[i := f (ns ! i)] ! 0)"
proof -
  have "0 < length ns" using assms(1) by simp
  then show ?thesis using assms by (cases "i = 0") (simp_all add: nth_list_update)
qed

lemma reachable_depot_first:
  "reachable app \<Longrightarrow> nodes app \<noteq> [] \<and> is_depot (nodes app ! 0)"
proof (induction rule: reachable.induct)
  case r_init
  show ?case
    by (simp add: VRPApp_init_def VRPNode_init_def Let_def split: prod.splits)
next
  case (r_click app cx cy)
  then show ?case
    by (auto simp: on_canvas_click_def select_node_def VRPNode_init_def nth_append
        split: option.splits prod.splits)
next
  case (r_right_click app cx cy)
  show ?case
  proof (cases "clicked_node (nodes app) 0 cx cy")
    case None
    with r_right_click.IH show ?thesis by (simp add: on_canvas_right_click_def)
  next
    case (Some pos)
    show ?thesis
    proof (cases "is_depot (nodes app ! pos)")
      case True
      with Some r_right_click.IH show ?thesis by (simp add: on_canvas_right_click_def)
    next
      case False
      have "pos \<noteq> 0"
      proof
        assume "pos = 0"
        with False r_right_click.IH show False by simp
      qed
      moreover from clicked_node_range [OF Some] have "pos < length (nodes app)" by simp
      ultimately show ?thesis
        using Some False r_right_click.IH
        by (cases "nodes app") (auto simp: on_canvas_right_click_def nth_append)
    qed
  qed
next
  case (r_vehicle_count app n)
  then show ?case by (simp add: on_vehicle_count_change_def)
next
  case (r_set_time_window app py_int s e)
  then show ?case
    using update_keeps_depot_first [of "nodes app" "set_time_window a b" for a b]
    by (auto simp: on_set_time_window_def Let_def set_time_window_def split: option.splits)
next
  case (r_clear_time_window app)
  then show ?case
    using update_keeps_depot_first [of "nodes app" clear_time_window]
    by (auto simp: on_clear_time_window_def clear_time_window_def split: option.splits)
next
  case (r_add_skill app s)
  then show ?case by (simp add: on_add_skill_def Let_def)
next
  case (r_delete_skill app s c app')
  then show ?case
    by (cases "nodes app") (auto simp: on_delete_skill_def split: if_splits)
next
  case (r_vehicle_skill app v s b)
  then show ?case
    by (auto simp: on_vehicle_skill_toggle_def Let_def split: option.splits)
next
  case (r_node_skill app s b)
  then show ?case
    using update_keeps_depot_first [of "nodes app" "add_required_skill s"]
      update_keeps_depot_first [of "nodes app" "remove_required_skill s"]
    by (auto simp: on_node_skill_toggle_def add_required_skill_def remove_required_skill_def
        split: option.splits)
next
  case (r_clear_routes app)
  then show ?case by (simp add: on_clear_routes_def)
next
  case (r_clear_all app c)
  then show ?case by (cases "nodes app") (auto simp: on_clear_all_def)
next
  case (r_load app py_int data app' d ds)
  from r_load.hyps(2) r_load.hyps(3)
  obtain ns k where ln: "load_nodes (d # ds) [] 0 = (ns, k)" and n: "nodes app' = ns"
    by (auto simp: on_load_preset_def Let_def split: option.splits sum.splits prod.splits)
  from load_nodes_first [OF ln] r_load.hyps(4) n show ?case by simp
next
  case (r_queue_put app m)
  then show ?case by (simp add: queue_put_def)
next
  case (r_check_results app)
  then show ?case
    by (auto simp: check_solver_results_def split: list.splits message.splits)
qed




subsection \<open>Solver thread\<close>

lemma has_skills_iff: "has_skills app \<longleftrightarrow> (\<exists>node \<in> set (nodes app). required_skills node \<noteq> {})"
  by (simp add: has_skills_def list_ex_iff)

lemma has_time_windows_iff:
  "has_time_windows app \<longleftrightarrow> (\<exists>node \<in> set (nodes app). time_window node \<noteq> None)"
  by (simp add: has_time_windows_def list_ex_iff)

lemma prepare_num_vehicles [simp]: "data_num_vehicles (prepare_solver_data app) = num_vehicles app"
  by (simp add: prepare_solver_data_def Let_def)

lemma deliver_calls [simp]: "solve_calls (deliver q calls r) = calls"
  by (simp add: deliver_def split: option.splits sum.splits prod.splits)

lemma solve_calls_cases:
  "solve_calls (run_vrp_solver solve app live1 live2) = []
   \<or> solve_calls (run_vrp_solver solve app live1 live2) = [search_parameters app]
   \<or> solve_calls (run_vrp_solver solve app live1 live2) = [search_parameters app, fallback_parameters]"
  by (simp add: run_vrp_solver_def Let_def split: option.splits)

lemma fallback_parameters_eq:
  "fallback_parameters =
     \<lparr>first_solution_strategy = SAVINGS, local_search_metaheuristic = SIMULATED_ANNEALING,
      time_limit_seconds = 20\<rparr>"
  by (simp add: fallback_parameters_def DefaultRoutingSearchParameters_def)

lemma electrician_needed_nodes:
  "nodes electrician_needed =
     [\<lparr>node_id = 0, node_x = 0, node_y = 0, is_depot = True, time_window = None, required_skills = {}\<rparr>,
      \<lparr>node_id = 0, node_x = 5, node_y = 0, is_depot = False, time_window = None,
       required_skills = {''electrician''}\<rparr>]"
  "num_vehicles electrician_needed = 1"
  "vehicle_skills electrician_needed = [(0, []), (1, []), (2, []), (3, [])]"
  by (simp_all add: electrician_needed_eq)

text \<open>
  Claim C4. The first-solution strategy is PATH\_CHEAPEST\_ARC when the scenario has at most
  20 nodes and SAVINGS when it has more; guided local search is switched on exactly when
  some node has a time window, or some node has required skills, or there are more than 15
  nodes, and the metaheuristic is left at its default otherwise; the time limit is 15 with
  guided local search and 10 without. These are the parameters of the first call of the
  solver, whenever it is called.
\<close>

theorem strategy_policy:
  "first_solution_strategy (search_parameters app)
     = (if length (nodes app) \<le> 20 then PATH_CHEAPEST_ARC else SAVINGS)
   \<and> (local_search_metaheuristic (search_parameters app) = GUIDED_LOCAL_SEARCH \<longleftrightarrow>
        (\<exists>node \<in> set (nodes app). time_window node \<noteq> None)
        \<or> (\<exists>node \<in> set (nodes app). required_skills node \<noteq> {})
        \<or> length (nodes app) > 15)
   \<and> (local_search_metaheuristic (search_parameters app) \<noteq> GUIDED_LOCAL_SEARCH \<longrightarrow>
        local_search_metaheuristic (search_parameters app) = AUTOMATIC_SEARCH)
   \<and> time_limit_seconds (search_parameters app)
     = (if local_search_metaheuristic (search_parameters app) = GUIDED_LOCAL_SEARCH then 15 else 10)
   \<and> (solve_calls (run_vrp_solver solve app live1 live2) \<noteq> [] \<longrightarrow>
        hd (solve_calls (run_vrp_solver solve app live1 live2)) = search_parameters app)"
proof -
  have "solve_calls (run_vrp_solver solve app live1 live2) \<noteq> [] \<longrightarrow>
        hd (solve_calls (run_vrp_solver solve app live1 live2)) = search_parameters app"
    using solve_calls_cases [of solve app live1 live2] by auto
  then show ?thesis
    by (simp add: search_parameters_def DefaultRoutingSearchParameters_def Let_def
        has_skills_iff has_time_windows_iff)
qed

theorem strategy_policy_witness:
  "length (nodes two_customers) \<le> 20
   \<and> first_solution_strategy (search_parameters two_customers) = PATH_CHEAPEST_ARC
   \<and> local_search_metaheuristic (search_parameters two_customers) = AUTOMATIC_SEARCH
   \<and> time_limit_seconds (search_parameters two_customers) = 10
   \<and> (\<exists>node \<in> set (nodes electrician_needed). required_skills node \<noteq> {})
   \<and> local_search_metaheuristic (search_parameters electrician_needed) = GUIDED_LOCAL_SEARCH
   \<and> time_limit_seconds (search_parameters electrician_needed) = 15
   \<and> solve_calls (run_vrp_solver no_solution_solver two_customers two_customers two_customers) \<noteq> []
   \<and> hd (solve_calls (run_vrp_solver no_solution_solver two_customers two_customers two_customers))
       = search_parameters two_customers"
proof -
  have c: "solve_calls (run_vrp_solver no_solution_solver two_customers two_customers two_customers) \<noteq> []"
    by (simp add: run_vrp_solver_def Let_def two_customers_unconstrained no_solution_solver_def
        two_customers_nodes)
  show ?thesis
    using strategy_policy [of two_customers no_solution_solver two_customers two_customers]
      strategy_policy [of electrician_needed no_solution_solver electrician_needed electrician_needed]
      c
    by (simp add: two_customers_nodes electrician_needed_nodes)
qed

subsection \<open>Build-time skill check\<close>

lemma valid_vehicles_empty_iff:
  "valid_vehicles app (prepare_solver_data app) node = [] \<longleftrightarrow>
     (\<forall>v. 0 \<le> v \<and> v < num_vehicles app \<longrightarrow> \<not> required_skills node \<subseteq> set (vehicle_skills_get app v))"
proof
  assume e: "valid_vehicles app (prepare_solver_data app) node = []"
  show "\<forall>v. 0 \<le> v \<and> v < num_vehicles app \<longrightarrow> \<not> required_skills node \<subseteq> set (vehicle_skills_get app v)"
  proof (intro allI impI)
    fix v :: int
    assume v: "0 \<le> v \<and> v < num_vehicles app"
    then have "nat v \<in> set [0..<nat (num_vehicles app)]" by simp
    with e have "\<not> (\<forall>skill \<in> required_skills node. skill \<in> set (vehicle_skills_get app (int (nat v))))"
      unfolding valid_vehicles_def filter_empty_conv prepare_num_vehicles by blast
    moreover have "int (nat v) = v" using v by simp
    ultimately show "\<not> required_skills node \<subseteq> set (vehicle_skills_get app v)" by auto
  qed
next
  assume a: "\<forall>v. 0 \<le> v \<and> v < num_vehicles app \<longrightarrow> \<not> required_skills node \<subseteq> set (vehicle_skills_get app v)"
  show "valid_vehicles app (prepare_solver_data app) node = []"
    unfolding valid_vehicles_def filter_empty_conv
  proof
    fix k assume "k \<in> set [0..<nat (data_num_vehicles (prepare_solver_data app))]"
    then have "0 \<le> int k \<and> int k < num_vehicles app" by simp
    with a have "\<not> required_skills node \<subseteq> set (vehicle_skills_get app (int k))" by blast
    then show "\<not> (\<forall>skill \<in> required_skills node. skill \<in> set (vehicle_skills_get app (int k)))" by auto
  qed
qed

lemma no_vehicle_at_all:
  assumes "valid_vehicles app (prepare_solver_data app) node = []" and "required_skills node = {}"
  shows "valid_vehicles app (prepare_solver_data app) other = []"
proof -
  from assms have "[0..<nat (num_vehicles app)] = []"
    by (simp add: valid_vehicles_def)
  then show ?thesis by (simp add: valid_vehicles_def)
qed

lemma unserved_node_exists:
  assumes s: "\<exists>node \<in> set (nodes app). required_skills node \<noteq> {}"
      and e: "\<exists>node \<in> set (nodes app). valid_vehicles app (prepare_solver_data app) node = []"
  shows "\<exists>node. unserved_node app (prepare_solver_data app) = Some node"
proof -
  from e obtain n where n: "n \<in> set (nodes app)" "valid_vehicles app (prepare_solver_data app) n = []"
    by blast
  have "\<exists>m \<in> set (nodes app). required_skills m \<noteq> {} \<and> valid_vehicles app (prepare_solver_data app) m = []"
  proof (cases "required_skills n = {}")
    case True
    from s obtain m where "m \<in> set (nodes app)" "required_skills m \<noteq> {}" by blast
    moreover have "valid_vehicles app (prepare_solver_data app) m = []"
      using no_vehicle_at_all [OF n(2) True] .
    ultimately show ?thesis by blast
  next
    case False
    with n show ?thesis by blast
  qed
  then have "find (\<lambda>node. required_skills node \<noteq> {} \<and> valid_vehicles app (prepare_solver_data app) node = []) (nodes app) \<noteq> None"
    unfolding find_None_iff by blast
  then show ?thesis by (auto simp: unserved_node_def)
qed

lemma unserved_node_props:
  assumes "unserved_node app data = Some node"
  shows "node \<in> set (nodes app) \<and> required_skills node \<noteq> {} \<and> valid_vehicles app data node = []"
  using assms unfolding unserved_node_def find_Some_iff by auto





subsection \<open>Route extraction reads the live node list\<close>

lemma ids_nth:
  assumes "map node_id ns = map node_id ns'" and "k < length ns"
  shows "node_id (ns ! k) = node_id (ns' ! k)"
proof -
  have "map node_id ns ! k = map node_id ns' ! k" using assms(1) by simp
  moreover have "length ns' = length ns" using assms(1) by (metis length_map)
  ultimately show ?thesis using assms(2) by simp
qed

lemma walk_route_ids_all:
  assumes "walk_route sol0 ns0 v0 i0 r0 d0 = Some y0"
  shows "\<forall>ns'. map node_id ns0 = map node_id ns' \<longrightarrow> walk_route sol0 ns' v0 i0 r0 d0 = Some y0"
proof (rule walk_route.raw_induct
    [where P = "\<lambda>sol ns vehicle_id index route d y.
                  \<forall>ns'. map node_id ns = map node_id ns' \<longrightarrow>
                        walk_route sol ns' vehicle_id index route d = Some y",
     OF _ assms], goal_cases)
  case (1 walk sol ns vehicle_id index route d y)
  note ih = "1"(1) and unfolded = "1"(2)
  show ?case
  proof (intro allI impI)
    fix ns' :: "VRPNode list" assume eq: "map node_id ns = map node_id ns'"
    have len: "length ns' = length ns" using eq by (metis length_map)
    show "walk_route sol ns' vehicle_id index route d = Some y"
    proof (cases "IsEnd sol index")
      case True
      with unfolded show ?thesis by (subst walk_route.simps) simp
    next
      case False
      show ?thesis
      proof (cases "IndexToNode sol index < length ns")
        case True
        then have id: "node_id (ns ! IndexToNode sol index) = node_id (ns' ! IndexToNode sol index)"
          using ids_nth [OF eq] by blast
        from unfolded False True
        have w: "walk sol ns vehicle_id (NextVar_Value sol index)
               (route @ [node_id (ns ! IndexToNode sol index)])
               (d + GetArcCostForVehicle sol index (NextVar_Value sol index) vehicle_id) = Some y"
          by simp
        have "\<forall>ns''. map node_id ns = map node_id ns'' \<longrightarrow>
               walk_route sol ns'' vehicle_id (NextVar_Value sol index)
                 (route @ [node_id (ns ! IndexToNode sol index)])
                 (d + GetArcCostForVehicle sol index (NextVar_Value sol index) vehicle_id) = Some y"
          by (rule ih [OF w])
        then have "walk_route sol ns' vehicle_id (NextVar_Value sol index)
                 (route @ [node_id (ns ! IndexToNode sol index)])
                 (d + GetArcCostForVehicle sol index (NextVar_Value sol index) vehicle_id) = Some y"
          using eq by blast
        then have "walk_route sol ns' vehicle_id (NextVar_Value sol index)
                 (route @ [node_id (ns' ! IndexToNode sol index)])
                 (d + GetArcCostForVehicle sol index (NextVar_Value sol index) vehicle_id) = Some y"
          unfolding id .
        then show ?thesis
          using False True len by (subst walk_route.simps) simp
      next
        case F2: False
        with unfolded False len show ?thesis by (subst walk_route.simps) simp
      qed
    qed
  qed
qed

lemma walk_route_ids_Some:
  assumes "walk_route sol ns vehicle_id index route d = Some y"
      and "map node_id ns = map node_id ns'"
  shows "walk_route sol ns' vehicle_id index route d = Some y"
  using walk_route_ids_all [OF assms(1)] assms(2) by blast

lemma walk_route_ids:
  assumes "map node_id ns = map node_id ns'"
  shows "walk_route sol ns vehicle_id index route d = walk_route sol ns' vehicle_id index route d"
proof (cases "walk_route sol ns vehicle_id index route d")
  case None
  show ?thesis
  proof (cases "walk_route sol ns' vehicle_id index route d")
    case N: None
    with None show ?thesis by simp
  next
    case (Some y)
    from walk_route_ids_Some [OF Some assms [symmetric]] None show ?thesis by simp
  qed
next
  case (Some y)
  from walk_route_ids_Some [OF Some assms] Some show ?thesis by simp
qed

lemma extract_routes_ids:
  assumes "map node_id ns = map node_id ns'"
  shows "extract_routes sol ns vs rs m = extract_routes sol ns' vs rs m"
proof (induction vs arbitrary: rs m)
  case Nil
  show ?case by simp
next
  case (Cons v vs)
  have len: "length ns' = length ns" using assms by (metis length_map)
  show ?case
    using Cons.IH ids_nth [OF assms] len
    by (simp add: walk_route_ids [OF assms] split: option.splits sum.splits prod.splits)
qed

lemma run_unedited:
  "run_vrp_solver single_route_solver two_customers two_customers two_customers =
     \<lparr>put_messages = [Debug (SolvingWith 3 2 1), Success [[0, 0, 1, 0]] 2000],
      solve_calls = [\<lparr>first_solution_strategy = PATH_CHEAPEST_ARC,
                      local_search_metaheuristic = AUTOMATIC_SEARCH, time_limit_seconds = 10\<rparr>],
      returned = True\<rparr>"
proof -
  have nv: "data_num_vehicles (prepare_solver_data two_customers) = 1"
    by (simp add: two_customers_nodes)
  have d: "debug_msg two_customers = SolvingWith 3 2 1"
    by (simp add: debug_msg_def Let_def two_customers_nodes)
  show ?thesis
    by (simp add: run_vrp_solver_def Let_def two_customers_unconstrained nv d
        two_customers_parameters two_customers_routing single_route_solver_def
        two_customers_nodes deliver_def walk_route.simps)
qed

lemma run_edited:
  "run_vrp_solver single_route_solver two_customers
      (fst (on_canvas_right_click 450 300 two_customers))
      (fst (on_canvas_right_click 450 300 two_customers)) =
     \<lparr>put_messages = [Debug (SolvingWith 3 2 1), Error (ErrorDuringSolving ''list index out of range'')],
      solve_calls = [\<lparr>first_solution_strategy = PATH_CHEAPEST_ARC,
                      local_search_metaheuristic = AUTOMATIC_SEARCH, time_limit_seconds = 10\<rparr>],
      returned = True\<rparr>"
proof -
  have nv: "data_num_vehicles (prepare_solver_data two_customers) = 1"
    by (simp add: two_customers_nodes)
  have d: "debug_msg two_customers = SolvingWith 3 2 1"
    by (simp add: debug_msg_def Let_def two_customers_nodes)
  show ?thesis
    by (simp add: run_vrp_solver_def Let_def two_customers_unconstrained nv d
        two_customers_parameters two_customers_routing single_route_solver_def
        two_customers_nodes deliver_def walk_route.simps two_customers_after_removal)
qed

text \<open>
  Claim C7, as stated, fails. Two runs start from the same scenario (the depot and two
  customers, one vehicle) with the same solver answer. In the first the node list is not
  touched and the thread delivers the route with cost 2000. In the second the first
  customer is removed with a right click while the solver runs; the extraction loop then
  reads \<open>self.nodes[2]\<close> from the shortened list and the thread delivers an error instead.
\<close>

theorem snapshot_noninterference_counterexample:
  "put_messages (run_vrp_solver single_route_solver two_customers two_customers two_customers)
     = [Debug (SolvingWith 3 2 1), Success [[0, 0, 1, 0]] 2000]
   \<and> put_messages (run_vrp_solver single_route_solver two_customers
        (fst (on_canvas_right_click 450 300 two_customers))
        (fst (on_canvas_right_click 450 300 two_customers)))
     = [Debug (SolvingWith 3 2 1), Error (ErrorDuringSolving ''list index out of range'')]
   \<and> run_vrp_solver single_route_solver two_customers
        (fst (on_canvas_right_click 450 300 two_customers))
        (fst (on_canvas_right_click 450 300 two_customers))
     \<noteq> run_vrp_solver single_route_solver two_customers two_customers two_customers"
  by (simp add: run_unedited run_edited)

text \<open>
  Claim C7, amended. What the thread delivers is determined by the scenario at the start
  of the solve, the answers of the solver, and the sequence of node ids in \<open>self.nodes\<close> at
  the moments the solver calls return: two runs from the same start whose live node lists
  carry the same ids in the same order deliver the same result. Edits that leave the id
  sequence alone (time windows, skills, fleet) are therefore invisible to a running solve.
\<close>

theorem result_depends_on_live_ids:
  assumes "map node_id (nodes live1) = map node_id (nodes live1')"
      and "map node_id (nodes live2) = map node_id (nodes live2')"
  shows "run_vrp_solver solve app live1 live2 = run_vrp_solver solve app live1' live2'"
proof -
  have "length (nodes live1) = length (nodes live1')" using assms(1) by (metis length_map)
  then show ?thesis
    by (simp add: run_vrp_solver_def Let_def extract_routes_ids [OF assms(1)]
        extract_routes_ids [OF assms(2)] split: option.splits)
qed

theorem result_depends_on_live_ids_witness:
  "map node_id (nodes two_customers)
     = map node_id (nodes (on_vehicle_count_change 3 (on_node_skill_toggle ''electrician'' True two_customers)))
   \<and> required_skills (nodes (on_vehicle_count_change 3 (on_node_skill_toggle ''electrician'' True two_customers)) ! 2)
     = {''electrician''}
   \<and> put_messages (run_vrp_solver single_route_solver two_customers
        (on_vehicle_count_change 3 (on_node_skill_toggle ''electrician'' True two_customers))
        (on_vehicle_count_change 3 (on_node_skill_toggle ''electrician'' True two_customers)))
     = [Debug (SolvingWith 3 2 1), Success [[0, 0, 1, 0]] 2000]"
proof -
  have e: "nodes (on_vehicle_count_change 3 (on_node_skill_toggle ''electrician'' True two_customers)) =
     [\<lparr>node_id = 0, node_x = 0, node_y = 0, is_depot = True, time_window = None, required_skills = {}\<rparr>,
      \<lparr>node_id = 0, node_x = 5, node_y = 0, is_depot = False, time_window = None, required_skills = {}\<rparr>,
      \<lparr>node_id = 1, node_x = -5, node_y = 0, is_depot = False, time_window = None,
       required_skills = {''electrician''}\<rparr>]"
    by (simp add: on_vehicle_count_change_def on_node_skill_toggle_def add_required_skill_def
        two_customers_eq)
  have m: "map node_id (nodes two_customers)
     = map node_id (nodes (on_vehicle_count_change 3 (on_node_skill_toggle ''electrician'' True two_customers)))"
    by (simp add: e two_customers_nodes)
  from result_depends_on_live_ids [OF m m, of single_route_solver two_customers]
  have "run_vrp_solver single_route_solver two_customers
        (on_vehicle_count_change 3 (on_node_skill_toggle ''electrician'' True two_customers))
        (on_vehicle_count_change 3 (on_node_skill_toggle ''electrician'' True two_customers))
      = run_vrp_solver single_route_solver two_customers two_customers two_customers"
    by simp
  then show ?thesis using m by (simp add: run_unedited e)
qed

subsection \<open>Node ids\<close>

text \<open>
  Claim C1 against the code. In a fresh application the first click on an empty place of
  the canvas creates a customer whose id is 0, the id of the depot: the counter starts at
  0 and creating the depot does not advance it.
\<close>

theorem first_customer_gets_depot_id:
  "nodes (on_canvas_click 450 300 VRPApp_init) =
     [\<lparr>node_id = 0, node_x = 0, node_y = 0, is_depot = True, time_window = None, required_skills = {}\<rparr>,
      \<lparr>node_id = 0, node_x = 5, node_y = 0, is_depot = False, time_window = None, required_skills = {}\<rparr>]
   \<and> \<not> is_depot (nodes (on_canvas_click 450 300 VRPApp_init) ! 1)
   \<and> node_id (nodes (on_canvas_click 450 300 VRPApp_init) ! 1) = 0
   \<and> node_id (nodes (on_canvas_click 450 300 VRPApp_init) ! 1)
       = node_id (nodes (on_canvas_click 450 300 VRPApp_init) ! 0)"
  using one_customer_eq by (simp add: one_customer_def)

subsection \<open>Deleting a skill\<close>

lemma update_absent: "map_of al k = None \<Longrightarrow> AList.update k v al = al @ [(k, v)]"
  by (induction al) (auto split: if_splits)

lemma fill_lookup:
  "(case map_of (fold (\<lambda>i vs. if map_of vs (int i) = None then AList.update (int i) [] vs else vs) is al) k
      of None \<Rightarrow> [] | Some l \<Rightarrow> l)
   = (case map_of al k of None \<Rightarrow> [] | Some l \<Rightarrow> l)"
proof (induction "is" arbitrary: al)
  case Nil
  show ?case by simp
next
  case (Cons i "is")
  show ?case
    by (simp add: Cons.IH update_conv' split: option.splits)
qed

lemma fill_entries:
  "set (fold (\<lambda>i vs. if map_of vs (int i) = None then AList.update (int i) [] vs else vs) is al)
     \<subseteq> set al \<union> {(k, []) | k. True}"
proof (induction "is" arbitrary: al)
  case Nil
  show ?case by simp
next
  case (Cons i "is")
  show ?case
  proof (cases "map_of al (int i) = None")
    case True
    then have "AList.update (int i) [] al = al @ [(int i, [])]" by (rule update_absent)
    with Cons.IH [of "al @ [(int i, [])]"] True show ?thesis by auto
  next
    case False
    then obtain l where "map_of al (int i) = Some l" by blast
    with Cons.IH [of al] show ?thesis by simp
  qed
qed

lemma vehicle_skills_get_update_skills_ui:
  "vehicle_skills_get (update_skills_ui app) v = vehicle_skills_get app v"
  by (simp add: update_skills_ui_def update_vehicle_skills_ui_def vehicle_skills_get_def fill_lookup)

lemma vehicle_skills_update_skills_ui:
  "set (vehicle_skills (update_skills_ui app)) \<subseteq> set (vehicle_skills app) \<union> {(k, []) | k. True}"
  using fill_entries [of "[0..<nat (num_vehicles app)]" "vehicle_skills app"]
  by (simp add: update_skills_ui_def update_vehicle_skills_ui_def)

lemma update_skills_ui_fields [simp]:
  "available_skills (update_skills_ui app) = available_skills app"
  "num_vehicles (update_skills_ui app) = num_vehicles app"
  "selected_node (update_skills_ui app) = selected_node app"
  "routes (update_skills_ui app) = routes app"
  "queue (update_skills_ui app) = queue app"
  "id_counter (update_skills_ui app) = id_counter app"
  by (simp_all add: update_skills_ui_def update_vehicle_skills_ui_def)

lemma drop_required_skill:
  "(if skill \<in> required_skills node
    then node\<lparr>required_skills := required_skills node - {skill}\<rparr> else node)
   = node\<lparr>required_skills := required_skills node - {skill}\<rparr>"
  by simp

lemma electrician_hired_eq:
  "electrician_hired =
     \<lparr>nodes = [\<lparr>node_id = 0, node_x = 0, node_y = 0, is_depot = True, time_window = None, required_skills = {}\<rparr>,
               \<lparr>node_id = 0, node_x = 5, node_y = 0, is_depot = False, time_window = None,
                required_skills = {''electrician''}\<rparr>],
      selected_node = Some 1, num_vehicles = 1, available_skills = [''electrician''],
      vehicle_skills = [(0, [''electrician'']), (1, []), (2, []), (3, [])],
      routes = [], queue = [], id_counter = 1\<rparr>"
  by (simp add: electrician_hired_def electrician_needed_eq on_vehicle_skill_toggle_def Let_def)



subsection \<open>Setting a time window\<close>

lemma decimal_int_examples:
  "decimal_int ''100'' = Some 100" "decimal_int ''50'' = Some 50"
  "decimal_int ''10'' = Some 10" "decimal_int ''20'' = Some 20"
  "decimal_int ''abc'' = None" "decimal_int [] = None"
  by (simp_all add: decimal_int_def digit_of_def)

lemma strip_examples:
  "strip ''100'' = ''100''" "strip ''50'' = ''50''" "strip '' 10 '' = ''10''" "strip ''20'' = ''20''"
  "strip ''abc'' = ''abc''"
  by (simp_all add: strip_def is_space_def)

text \<open>
  Claim C9. With a node selected and a conversion \<open>py_int\<close> that rejects the empty string,
  \<open>on_set_time_window\<close> opens no message box exactly when both stripped texts convert to
  integers with start < end and start >= 0, and then the selected node's time window
  becomes that pair and nothing else changes. In every other case it opens an
  Invalid Time Window warning and the application state is unchanged. So the time window
  of the selected node after the operation is the old one or a pair with start < end and
  start >= 0.
\<close>

theorem time_window_validation:
  assumes sel: "selected_node app = Some sel"
      and range: "sel < length (nodes app)"
      and empty: "py_int [] = None"
  shows "(snd (on_set_time_window py_int start_entry end_entry app) = None \<longleftrightarrow>
            (\<exists>a b. py_int (strip start_entry) = Some a \<and> py_int (strip end_entry) = Some b
                   \<and> a < b \<and> 0 \<le> a))
         \<and> (\<forall>a b. py_int (strip start_entry) = Some a \<and> py_int (strip end_entry) = Some b
                   \<and> a < b \<and> 0 \<le> a \<longrightarrow>
                fst (on_set_time_window py_int start_entry end_entry app)
                  = app\<lparr>nodes := (nodes app)[sel := (nodes app ! sel)\<lparr>time_window := Some (a, b)\<rparr>]\<rparr>)
         \<and> (snd (on_set_time_window py_int start_entry end_entry app) \<noteq> None \<longrightarrow>
                fst (on_set_time_window py_int start_entry end_entry app) = app
                \<and> (\<exists>text. snd (on_set_time_window py_int start_entry end_entry app)
                            = Some (showwarning ''Invalid Time Window'' text)))
         \<and> (\<forall>a b. time_window (nodes (fst (on_set_time_window py_int start_entry end_entry app)) ! sel)
                     = Some (a, b) \<longrightarrow>
                time_window (nodes app ! sel) = Some (a, b) \<or> (a < b \<and> 0 \<le> a))"
proof (cases "strip start_entry = [] \<or> strip end_entry = []")
  case True
  then have r: "on_set_time_window py_int start_entry end_entry app =
      (app, Some (showwarning ''Invalid Time Window'' ''Please enter both start and end times.''))"
    using sel by (simp add: on_set_time_window_def Let_def)
  from True empty have "\<not> (\<exists>a b. py_int (strip start_entry) = Some a \<and> py_int (strip end_entry) = Some b
                   \<and> a < b \<and> 0 \<le> a)"
    by auto
  then show ?thesis unfolding r by auto
next
  case False
  show ?thesis
  proof (cases "py_int (strip start_entry)")
    case None
    then have r: "on_set_time_window py_int start_entry end_entry app =
        (app, Some (showwarning ''Invalid Time Window'' ''Times must be integers.''))"
      using sel False by (simp add: on_set_time_window_def Let_def)
    show ?thesis unfolding r using None by auto
  next
    case (Some a)
    note a = Some
    show ?thesis
    proof (cases "py_int (strip end_entry)")
      case None
      then have r: "on_set_time_window py_int start_entry end_entry app =
          (app, Some (showwarning ''Invalid Time Window'' ''Times must be integers.''))"
        using sel False a by (simp add: on_set_time_window_def Let_def)
      show ?thesis unfolding r using None by auto
    next
      case (Some b)
      note b = Some
      consider (order) "a \<ge> b" | (negative) "a < b" "a < 0" | (valid) "a < b" "0 \<le> a"
        by linarith
      then show ?thesis
      proof cases
        case order
        then have r: "on_set_time_window py_int start_entry end_entry app =
            (app, Some (showwarning ''Invalid Time Window'' ''End time must be greater than start time.''))"
          using sel False a b by (simp add: on_set_time_window_def Let_def)
        show ?thesis unfolding r using a b order by auto
      next
        case negative
        then have r: "on_set_time_window py_int start_entry end_entry app =
            (app, Some (showwarning ''Invalid Time Window'' ''Times must be non-negative.''))"
          using sel False a b by (simp add: on_set_time_window_def Let_def)
        show ?thesis unfolding r using a b negative by auto
      next
        case valid
        then have r: "on_set_time_window py_int start_entry end_entry app =
            (app\<lparr>nodes := (nodes app)[sel := (nodes app ! sel)\<lparr>time_window := Some (a, b)\<rparr>]\<rparr>, None)"
          using sel False a b by (simp add: on_set_time_window_def Let_def set_time_window_def)
        show ?thesis unfolding r using a b valid range by auto
      qed
    qed
  qed
qed

theorem time_window_validation_witness:
  "selected_node one_customer = Some 1
   \<and> 1 < length (nodes one_customer)
   \<and> decimal_int [] = None
   \<and> on_set_time_window decimal_int ''100'' ''50'' one_customer
       = (one_customer, Some (showwarning ''Invalid Time Window'' ''End time must be greater than start time.''))
   \<and> snd (on_set_time_window decimal_int '' 10 '' ''20'' one_customer) = None
   \<and> time_window (nodes (fst (on_set_time_window decimal_int '' 10 '' ''20'' one_customer)) ! 1)
       = Some (10, 20)"
proof -
  have h: "selected_node one_customer = Some 1" "1 < length (nodes one_customer)"
    "decimal_int [] = None"
    by (simp_all add: one_customer_eq decimal_int_examples)
  have bad: "on_set_time_window decimal_int ''100'' ''50'' one_customer
       = (one_customer, Some (showwarning ''Invalid Time Window'' ''End time must be greater than start time.''))"
  proof -
    from time_window_validation [where py_int = decimal_int and start_entry = "''100''" and end_entry = "''50''", OF h]
    have "snd (on_set_time_window decimal_int ''100'' ''50'' one_customer) \<noteq> None"
      by (simp add: strip_examples decimal_int_examples)
    with time_window_validation [where py_int = decimal_int and start_entry = "''100''" and end_entry = "''50''", OF h]
    have "fst (on_set_time_window decimal_int ''100'' ''50'' one_customer) = one_customer"
      by blast
    moreover have "snd (on_set_time_window decimal_int ''100'' ''50'' one_customer)
        = Some (showwarning ''Invalid Time Window'' ''End time must be greater than start time.'')"
      using h(1) by (simp add: on_set_time_window_def Let_def strip_examples decimal_int_examples)
    ultimately show ?thesis by (simp add: prod_eq_iff)
  qed
  from time_window_validation [where py_int = decimal_int and start_entry = "'' 10 ''" and end_entry = "''20''", OF h]
  have good: "snd (on_set_time_window decimal_int '' 10 '' ''20'' one_customer) = None"
    "fst (on_set_time_window decimal_int '' 10 '' ''20'' one_customer)
       = one_customer\<lparr>nodes := (nodes one_customer)[1 := (nodes one_customer ! 1)\<lparr>time_window := Some (10, 20)\<rparr>]\<rparr>"
    by (simp_all add: strip_examples decimal_int_examples)
  have "time_window (nodes (fst (on_set_time_window decimal_int '' 10 '' ''20'' one_customer)) ! 1)
       = Some (10, 20)"
    unfolding good(2) by (simp add: one_customer_eq)
  with h bad good(1) show ?thesis by simp
qed

subsection \<open>Loading a preset\<close>

text \<open>
  Claim C6, as stated, fails. The live scenario has the depot and two customers. Loading
  a preset without the key \<open>nodes\<close> shows the load error and leaves the node list empty,
  the selection dropped and the id counter at 0. Loading a preset that holds a depot only
  and lacks the key \<open>num_vehicles\<close> shows the load error and leaves the preset's node list
  in place of the live one.
\<close>

theorem load_atomicity_counterexample:
  "on_load_preset decimal_int
     (Some (Inr \<lparr>preset_nodes = None, preset_num_vehicles = Some 2,
                 preset_available_skills = Some [], preset_vehicle_skills = Some []\<rparr>))
     two_customers
   = (two_customers\<lparr>selected_node := None, nodes := [], routes := [], id_counter := 0\<rparr>,
      Some (showerror ''Load Error'' (''Error loading preset: '' @ [CHR 0x27] @ ''nodes'' @ [CHR 0x27])))
   \<and> nodes two_customers \<noteq> []
   \<and> nodes (fst (on_load_preset decimal_int
        (Some (Inr \<lparr>preset_nodes = None, preset_num_vehicles = Some 2,
                    preset_available_skills = Some [], preset_vehicle_skills = Some []\<rparr>))
        two_customers)) = []
   \<and> on_load_preset decimal_int
        (Some (Inr \<lparr>preset_nodes = Some [\<lparr>dict_id = 0, dict_x = 0, dict_y = 0, dict_is_depot = True,
                                          dict_time_window = None, dict_required_skills = []\<rparr>],
                    preset_num_vehicles = None,
                    preset_available_skills = Some [], preset_vehicle_skills = Some []\<rparr>))
        two_customers
      = (two_customers\<lparr>selected_node := None,
                        nodes := [\<lparr>node_id = 0, node_x = 0, node_y = 0, is_depot = True,
                                   time_window = None, required_skills = {}\<rparr>],
                        routes := [], id_counter := 0\<rparr>,
         Some (showerror ''Load Error''
                 (''Error loading preset: '' @ [CHR 0x27] @ ''num_vehicles'' @ [CHR 0x27])))
   \<and> length (nodes two_customers) = 3"
  by (simp add: on_load_preset_def Let_def load_error_def from_dict_def VRPNode_init_def
      two_customers_nodes)

text \<open>
  Claim C6, amended. A file that cannot be opened or parsed gives a load error and leaves
  the application state exactly as it was. A parsed document that lacks one of the four
  keys gives a load error too; the vehicle-skill mapping and the queue are left as they
  were, the vehicle count is left as it was when \<open>nodes\<close> or \<open>num_vehicles\<close> is missing,
  and the skill catalog is left as it was when \<open>nodes\<close>, \<open>num_vehicles\<close> or
  \<open>available_skills\<close> is missing. Nothing is said about the node list, the selection, the
  routes and the id counter.
\<close>

theorem failed_load_effects:
  "on_load_preset py_int (Some (Inl e)) app = (app, Some (load_error e))
   \<and> (preset_nodes data = None \<or> preset_num_vehicles data = None
       \<or> preset_available_skills data = None \<or> preset_vehicle_skills data = None \<longrightarrow>
        (\<exists>text. snd (on_load_preset py_int (Some (Inr data)) app) = Some (showerror ''Load Error'' text))
        \<and> vehicle_skills (fst (on_load_preset py_int (Some (Inr data)) app)) = vehicle_skills app
        \<and> queue (fst (on_load_preset py_int (Some (Inr data)) app)) = queue app
        \<and> (preset_nodes data = None \<or> preset_num_vehicles data = None \<longrightarrow>
              num_vehicles (fst (on_load_preset py_int (Some (Inr data)) app)) = num_vehicles app)
        \<and> (preset_nodes data = None \<or> preset_num_vehicles data = None
            \<or> preset_available_skills data = None \<longrightarrow>
              available_skills (fst (on_load_preset py_int (Some (Inr data)) app)) = available_skills app))"
  by (auto simp: on_load_preset_def Let_def load_error_def split: option.splits prod.splits sum.splits)

theorem failed_load_effects_witness:
  "on_load_preset decimal_int (Some (Inl ''Expecting value: line 1 column 1 (char 0)'')) two_customers
     = (two_customers, Some (showerror ''Load Error'' ''Error loading preset: Expecting value: line 1 column 1 (char 0)''))
   \<and> preset_num_vehicles \<lparr>preset_nodes = Some [], preset_num_vehicles = None,
         preset_available_skills = Some [''welder''], preset_vehicle_skills = Some []\<rparr> = None
   \<and> (\<exists>text. snd (on_load_preset decimal_int
          (Some (Inr \<lparr>preset_nodes = Some [], preset_num_vehicles = None,
                      preset_available_skills = Some [''welder''], preset_vehicle_skills = Some []\<rparr>))
          two_customers) = Some (showerror ''Load Error'' text))
   \<and> num_vehicles (fst (on_load_preset decimal_int
          (Some (Inr \<lparr>preset_nodes = Some [], preset_num_vehicles = None,
                      preset_available_skills = Some [''welder''], preset_vehicle_skills = Some []\<rparr>))
          two_customers)) = 1
   \<and> available_skills (fst (on_load_preset decimal_int
          (Some (Inr \<lparr>preset_nodes = Some [], preset_num_vehicles = None,
                      preset_available_skills = Some [''welder''], preset_vehicle_skills = Some []\<rparr>))
          two_customers)) = []
   \<and> vehicle_skills (fst (on_load_preset decimal_int
          (Some (Inr \<lparr>preset_nodes = Some [], preset_num_vehicles = None,
                      preset_available_skills = Some [''welder''], preset_vehicle_skills = Some []\<rparr>))
          two_customers)) = [(0, []), (1, []), (2, []), (3, [])]"
  using failed_load_effects
          [of decimal_int "''Expecting value: line 1 column 1 (char 0)''" two_customers
              "\<lparr>preset_nodes = Some [], preset_num_vehicles = None,
                preset_available_skills = Some [''welder''], preset_vehicle_skills = Some []\<rparr>"]
  by (simp add: two_customers_eq load_error_def)

end
